theory Spec2Isabelle
  imports Main "HOL-Library.Sublist"
begin

section \<open>JavaScript values\<close>

text \<open>
  The session variables of both front-ends are JavaScript variables that hold a string once
  they are set and \<open>undefined\<close> before (\<open>let accountAddress\<close> has no
  initialiser). Reading an array past its end gives \<open>undefined\<close> as well.
\<close>

datatype js_value = Undefined | Str string

text \<open>JavaScript's ToString, as a template literal applies it to a substitution.\<close>

fun js_to_string :: "js_value \<Rightarrow> string" where
  "js_to_string Undefined = ''undefined''"
| "js_to_string (Str s) = s"

text \<open>\<open>xs[i]\<close> on an array of strings: \<open>undefined\<close> out of range.\<close>

definition js_index :: "string list \<Rightarrow> nat \<Rightarrow> js_value" where
  "js_index xs i = (if i < length xs then Str (xs ! i) else Undefined)"

section \<open>The dapp-toolkit front-end (client/main.js): session state and manifests\<close>

record session =
  accountAddress :: js_value
  componentAddress :: js_value
  gum_resourceAddress :: js_value
  xrdAddress :: js_value
  admin_badge :: js_value
  owner_badge :: js_value

text \<open>The module-level \<open>let\<close> declarations of main.js, lines 24 to 30.\<close>

definition initial_session :: session where
  "initial_session =
     \<lparr> accountAddress = Undefined,
       componentAddress = Str ''component_tdx_e_1crt0ndkk0x7rexswhczacj2405tgzh0zv3t0fr7czdxnd8y8vgjuyw'',
       gum_resourceAddress = Str ''resource_tdx_e_1t5hrjudhk4yd5m4svujx5ytvtvjaj5ufuahxaauru72ed7vrce8q34'',
       xrdAddress = Str ''resource_tdx_e_1tknxxxxxxxxxradxrdxxxxxxxxx009923554798xxxxxxxxx8rpsmc'',
       admin_badge = Str ''resource_tdx_e_1t5kmfczjh3g5vs7gj9jcarmgt0u29qfj50kngxqv2cnny9rr89fd94'',
       owner_badge = Str ''resource_tdx_e_1tk35c2pnzy4fr6ms5wpm8v4rsw76h7ptyydvqgs88jk58eqmaeqt45'' \<rparr>"

text \<open>
  Each manifest of main.js is a template literal. The definitions below keep the literal
  line by line, with its line breaks and its blanks; a substitution of a session variable
  goes through ToString, a substitution of an input field's value is a string already.
\<close>

definition instantiate_manifest :: "session \<Rightarrow> string \<Rightarrow> string \<Rightarrow> string" where
  \<open>instantiate_manifest s packageAddress flavor =
     ''\<newline>'' @
     ''  CALL_FUNCTION\<newline>'' @
     ''    Address("'' @ packageAddress @ ''")\<newline>'' @
     ''    "GumballMachine"\<newline>'' @
     ''    "instantiate_gumball_machine"\<newline>'' @
     ''    Decimal("5")\<newline>'' @
     ''    "'' @ flavor @ ''";\<newline>'' @
     ''  CALL_METHOD\<newline>'' @
     ''    Address("'' @ js_to_string (accountAddress s) @ ''")\<newline>'' @
     ''    "deposit_batch"\<newline>'' @
     ''    Expression("ENTIRE_WORKTOP");\<newline>'' @
     ''    ''\<close>

definition buy_manifest :: "session \<Rightarrow> string" where
  \<open>buy_manifest s =
     ''\<newline>'' @
     ''  CALL_METHOD\<newline>'' @
     ''    Address("'' @ js_to_string (accountAddress s) @ ''")\<newline>'' @
     ''    "withdraw"    \<newline>'' @
     ''    Address("'' @ js_to_string (xrdAddress s) @ ''")\<newline>'' @
     ''    Decimal("33");\<newline>'' @
     ''  TAKE_ALL_FROM_WORKTOP\<newline>'' @
     ''    Address("'' @ js_to_string (xrdAddress s) @ ''")\<newline>'' @
     ''    Bucket("xrd");\<newline>'' @
     ''  CALL_METHOD\<newline>'' @
     ''    Address("'' @ js_to_string (componentAddress s) @ ''")\<newline>'' @
     ''    "buy_gumball"\<newline>'' @
     ''    Bucket("xrd");\<newline>'' @
     ''  CALL_METHOD\<newline>'' @
     ''    Address("'' @ js_to_string (accountAddress s) @ ''")\<newline>'' @
     ''    "deposit_batch"\<newline>'' @
     ''    Expression("ENTIRE_WORKTOP");\<newline>'' @
     ''    ''\<close>

definition setPrice_manifest :: "session \<Rightarrow> string \<Rightarrow> string" where
  \<open>setPrice_manifest s newPrice =
     ''\<newline>'' @
     ''  CALL_METHOD\<newline>'' @
     ''    Address("'' @ js_to_string (accountAddress s) @ ''")\<newline>'' @
     ''    "create_proof_of_amount"    \<newline>'' @
     ''    Address("'' @ js_to_string (admin_badge s) @ ''")\<newline>'' @
     ''    Decimal("1");\<newline>'' @
     ''CALL_METHOD\<newline>'' @
     ''    Address("'' @ js_to_string (componentAddress s) @ ''")\<newline>'' @
     ''    "set_price"\<newline>'' @
     ''    Decimal("'' @ newPrice @ ''");\<newline>'' @
     ''  ''\<close>

definition withdrawEarnings_manifest :: "session \<Rightarrow> string" where
  \<open>withdrawEarnings_manifest s =
     ''\<newline>'' @
     ''  CALL_METHOD\<newline>'' @
     ''    Address("'' @ js_to_string (accountAddress s) @ ''")\<newline>'' @
     ''    "create_proof_of_amount"    \<newline>'' @
     ''    Address("'' @ js_to_string (owner_badge s) @ ''")\<newline>'' @
     ''    Decimal("1");\<newline>'' @
     ''  CALL_METHOD\<newline>'' @
     ''    Address("'' @ js_to_string (componentAddress s) @ ''")\<newline>'' @
     ''    "withdraw_earnings";\<newline>'' @
     ''  CALL_METHOD\<newline>'' @
     ''    Address("'' @ js_to_string (accountAddress s) @ ''")\<newline>'' @
     ''    "deposit_batch"\<newline>'' @
     ''    Expression("ENTIRE_WORKTOP");\<newline>'' @
     ''    ''\<close>

definition mintStaffBadge_manifest :: "session \<Rightarrow> string" where
  \<open>mintStaffBadge_manifest s =
     ''\<newline>'' @
     ''  CALL_METHOD\<newline>'' @
     ''    Address("'' @ js_to_string (accountAddress s) @ ''")\<newline>'' @
     ''    "create_proof_of_amount"    \<newline>'' @
     ''    Address("'' @ js_to_string (admin_badge s) @ ''")\<newline>'' @
     ''    Decimal("1");\<newline>'' @
     ''CALL_METHOD\<newline>'' @
     ''    Address("'' @ js_to_string (componentAddress s) @ ''")\<newline>'' @
     ''    "mint_staff_badge"\<newline>'' @
     ''    "Number2";\<newline>'' @
     ''CALL_METHOD\<newline>'' @
     ''    Address("'' @ js_to_string (accountAddress s) @ ''")\<newline>'' @
     ''    "deposit_batch"\<newline>'' @
     ''    Expression("ENTIRE_WORKTOP");\<newline>'' @
     ''    ''\<close>

section \<open>Reading a manifest text as a sequence of instructions\<close>

text \<open>
  The manifest language separates tokens by blanks and line breaks and ends an instruction
  with a semicolon. The claims speak of the instructions a manifest consists of and of their
  order, so a manifest text is read here as the list of its instructions, each the list of
  its tokens. This reading is the yardstick of the claims, not code of the repository.
\<close>

definition is_space :: "char \<Rightarrow> bool" where
  "is_space c = (c = CHR '' '' \<or> c = CHR ''\<newline>'')"

fun tokens_from :: "string \<Rightarrow> string \<Rightarrow> string list" where
  "tokens_from cur [] = (if cur = [] then [] else [cur])"
| "tokens_from cur (c # cs) =
     (if is_space c then (if cur = [] then tokens_from [] cs else cur # tokens_from [] cs)
      else tokens_from (cur @ [c]) cs)"

definition tokens :: "string \<Rightarrow> string list" where
  "tokens s = tokens_from [] s"

fun instructions_from :: "string list \<Rightarrow> string list \<Rightarrow> string list list" where
  "instructions_from cur [] = (if cur = [] then [] else [cur])"
| "instructions_from cur (t # ts) =
     (if t \<noteq> [] \<and> last t = CHR '';'' then (cur @ [butlast t]) # instructions_from [] ts
      else instructions_from (cur @ [t]) ts)"

definition manifest_instructions :: "string \<Rightarrow> string list list" where
  "manifest_instructions s = instructions_from [] (tokens s)"



section \<open>Collaborators, the page and the effects of a handler\<close>

text \<open>
  The wallet's \<open>sendTransaction\<close> resolves to a result object that is an error
  (\<open>isErr()\<close>, \<open>error\<close>) or carries a value; of the value the handlers
  read \<open>transactionIntentHash\<close> only, so \<open>Ok\<close> holds that hash. The
  \<open>version: 1\<close> field of the request is a constant and is left out.
\<close>

datatype 'a result = Err string | Ok 'a

text \<open>An awaited gateway call either rejects, which throws at the \<open>await\<close>, or resolves.\<close>

datatype 'a promise = Rejected string | Resolved 'a

text \<open>
  Modelled from the spec: the gateway client is a third-party library, so the types of its
  responses are not in the sources. Of the committed-details response the handlers read
  \<open>transaction.affected_global_entities\<close>, "an ordered list of affected global entity
  addresses"; of the entity-state response they read \<open>details.state.fields[i].value\<close>,
  "structured field data" taken "by a fixed field index". \<open>state_fields\<close> holds the
  \<open>value\<close> of each field.
\<close>

record receipt =
  affected_global_entities :: "string list"

record entity_details =
  state_fields :: "js_value list"

text \<open>
  \<open>JSON.stringify\<close> is not evaluated: the text a handler writes is kept as the value
  that was stringified.
\<close>

datatype dom_text = Plain string | JsonOfReceipt receipt | JsonOfValue js_value

text \<open>
  The page: \<open>innerText\<close> of the elements the handlers write, and \<open>value\<close>
  of the input fields they read, both by element id. The markup is not part of the sources;
  every element a handler names is taken to exist.
\<close>

record dom =
  innerText :: "string \<Rightarrow> dom_text"
  input_value :: "string \<Rightarrow> string"

datatype thrown = WalletError string | GatewayError string | TypeError

datatype outcome = Returned | Threw thrown

text \<open>
  What a handler does to the outside, in the order it does it. \<open>ConsoleLog\<close> keeps the
  label of a \<open>console.log\<close> call and leaves the logged value out.
\<close>

datatype event =
    ConsoleLog string
  | WalletRequest
  | SendTransaction string
  | GetStatus string
  | GetCommittedDetails string
  | GetEntityDetails js_value
  | Assign string js_value
  | SetInnerText string dom_text

record 'st world =
  vars :: 'st
  page :: dom
  trace :: "event list"

record collaborators =
  sendTransaction :: "string \<Rightarrow> string result"
  getStatus :: "string \<Rightarrow> string promise"
  getCommittedDetails :: "string \<Rightarrow> receipt promise"
  getEntityDetailsVaultAggregated :: "js_value \<Rightarrow> entity_details promise"

definition emit :: "event \<Rightarrow> 'st world \<Rightarrow> 'st world" where
  "emit e w = w\<lparr>trace := trace w @ [e]\<rparr>"

text \<open>\<open>document.getElementById(i).innerText = t\<close>\<close>

definition set_innerText :: "string \<Rightarrow> dom_text \<Rightarrow> 'st world \<Rightarrow> 'st world" where
  "set_innerText i t w =
     emit (SetInnerText i t) (w\<lparr>page := (page w)\<lparr>innerText := (innerText (page w))(i := t)\<rparr>\<rparr>)"

text \<open>An assignment to the session variable \<open>name\<close>; \<open>upd\<close> is the field's update.\<close>

definition assign ::
  "string \<Rightarrow> (js_value \<Rightarrow> 'st \<Rightarrow> 'st) \<Rightarrow> js_value \<Rightarrow> 'st world \<Rightarrow> 'st world" where
  "assign name upd v w = emit (Assign name v) (w\<lparr>vars := upd v (vars w)\<rparr>)"

section \<open>The handlers of client/main.js\<close>

text \<open>
  One run of a handler, from the click to the end of its chain of \<open>await\<close>s, with the
  answers of the collaborators given by \<open>c\<close>. Runs are modelled one at a time: no other
  handler runs between two \<open>await\<close>s of a run.
\<close>

record account =
  label :: string
  address :: string

text \<open>The subscriber of \<open>walletData$\<close>, main.js lines 15 to 20.\<close>

definition walletData_subscriber :: "account list \<Rightarrow> session world \<Rightarrow> outcome \<times> session world" where
  "walletData_subscriber accounts w0 =
     (let w = emit (ConsoleLog ''subscription wallet data: '') w0 in
      case accounts of
        [] \<Rightarrow> (Threw TypeError, w)
      | a # _ \<Rightarrow>
          let w = set_innerText ''accountName'' (Plain (label a)) w;
              w = set_innerText ''accountAddress'' (Plain (address a)) w;
              w = assign ''accountAddress'' (\<lambda>v s. s\<lparr>accountAddress := v\<rparr>) (Str (address a)) w
          in (Returned, w))"

text \<open>main.js lines 36 to 87.\<close>

definition instantiateComponent :: "collaborators \<Rightarrow> session world \<Rightarrow> outcome \<times> session world" where
  "instantiateComponent c w0 =
     (let packageAddress = input_value (page w0) ''packageAddress'';
          flavor = input_value (page w0) ''flavor'';
          manifest = instantiate_manifest (vars w0) packageAddress flavor;
          w = emit (ConsoleLog ''Instantiate Manifest: '') w0;
          w = emit (SendTransaction manifest) w
      in case sendTransaction c manifest of
           Err e \<Rightarrow> (Threw (WalletError e), w)
         | Ok h \<Rightarrow>
             let w = emit (ConsoleLog ''Intantiate WalletSDK Result: '') w;
                 w = emit (GetStatus h) w
             in (case getStatus c h of
                  Rejected g \<Rightarrow> (Threw (GatewayError g), w)
                | Resolved transactionStatus \<Rightarrow>
                    let w = emit (ConsoleLog ''Instantiate TransactionApi transaction/status:'') w;
                        w = emit (GetCommittedDetails h) w
                    in (case getCommittedDetails c h of
                         Rejected g \<Rightarrow> (Threw (GatewayError g), w)
                       | Resolved getCommitReceipt \<Rightarrow>
                           let w = emit (ConsoleLog ''Instantiate getCommittedDetails:'') w;
                               w = assign ''componentAddress'' (\<lambda>v s. s\<lparr>componentAddress := v\<rparr>)
                                     (js_index (affected_global_entities getCommitReceipt) 2) w;
                               w = set_innerText ''componentAddress''
                                     (Plain (js_to_string (componentAddress (vars w)))) w;
                               w = assign ''admin_badge'' (\<lambda>v s. s\<lparr>admin_badge := v\<rparr>)
                                     (js_index (affected_global_entities getCommitReceipt) 4) w;
                               w = set_innerText ''admin_badge''
                                     (Plain (js_to_string (admin_badge (vars w)))) w;
                               w = assign ''owner_badge'' (\<lambda>v s. s\<lparr>owner_badge := v\<rparr>)
                                     (js_index (affected_global_entities getCommitReceipt) 3) w;
                               w = set_innerText ''owner_badge''
                                     (Plain (js_to_string (owner_badge (vars w)))) w;
                               w = assign ''gum_resourceAddress'' (\<lambda>v s. s\<lparr>gum_resourceAddress := v\<rparr>)
                                     (js_index (affected_global_entities getCommitReceipt) 6) w;
                               w = set_innerText ''gum_resourceAddress''
                                     (Plain (js_to_string (gum_resourceAddress (vars w)))) w
                           in (Returned, w))))"

text \<open>main.js lines 91 to 131.\<close>

definition buyGumball :: "collaborators \<Rightarrow> session world \<Rightarrow> outcome \<times> session world" where
  "buyGumball c w0 =
     (let manifest = buy_manifest (vars w0);
          w = emit (ConsoleLog ''buy_gumball manifest: '') w0;
          w = emit (SendTransaction manifest) w
      in case sendTransaction c manifest of
           Err e \<Rightarrow> (Threw (WalletError e), w)
         | Ok h \<Rightarrow>
             let w = emit (ConsoleLog ''Buy Gumball sendTransaction Result: '') w;
                 w = emit (GetStatus h) w
             in (case getStatus c h of
                  Rejected g \<Rightarrow> (Threw (GatewayError g), w)
                | Resolved transactionStatus \<Rightarrow>
                    let w = emit (ConsoleLog ''Buy Gumball TransactionAPI transaction/status: '') w;
                        w = emit (GetCommittedDetails h) w
                    in (case getCommittedDetails c h of
                         Rejected g \<Rightarrow> (Threw (GatewayError g), w)
                       | Resolved getCommitReceipt \<Rightarrow>
                           let w = emit (ConsoleLog ''Buy Gumball Committed Details Receipt'') w;
                               w = set_innerText ''receipt'' (JsonOfReceipt getCommitReceipt) w
                           in (Returned, w))))"

text \<open>
  main.js lines 135 to 142. \<open>fields[2].value\<close> throws a TypeError when the response has
  fewer than three fields, before anything is written.
\<close>

definition getPrice :: "collaborators \<Rightarrow> session world \<Rightarrow> outcome \<times> session world" where
  "getPrice c w0 =
     (let w = emit (GetEntityDetails (componentAddress (vars w0))) w0
      in case getEntityDetailsVaultAggregated c (componentAddress (vars w0)) of
           Rejected g \<Rightarrow> (Threw (GatewayError g), w)
         | Resolved details \<Rightarrow>
             let w = emit (ConsoleLog ''getPrice'') w
             in if 2 < length (state_fields details)
                then (Returned, set_innerText ''price'' (JsonOfValue (state_fields details ! 2)) w)
                else (Threw TypeError, w))"

text \<open>main.js lines 146 to 178.\<close>

definition setPrice :: "collaborators \<Rightarrow> session world \<Rightarrow> outcome \<times> session world" where
  "setPrice c w0 =
     (let newPrice = input_value (page w0) ''newPrice'';
          manifest = setPrice_manifest (vars w0) newPrice;
          w = emit (ConsoleLog ''Set Price manifest'') w0;
          w = emit (SendTransaction manifest) w
      in case sendTransaction c manifest of
           Err e \<Rightarrow> (Threw (WalletError e), w)
         | Ok h \<Rightarrow>
             let w = emit (ConsoleLog ''Set Price sendTransaction result: '') w;
                 w = emit (GetStatus h) w
             in (case getStatus c h of
                  Rejected g \<Rightarrow> (Threw (GatewayError g), w)
                | Resolved transactionStatus \<Rightarrow>
                    let w = emit (ConsoleLog ''Set Price transaction status'') w;
                        w = emit (GetEntityDetails (componentAddress (vars w))) w
                    in (case getEntityDetailsVaultAggregated c (componentAddress (vars w)) of
                         Rejected g \<Rightarrow> (Threw (GatewayError g), w)
                       | Resolved details \<Rightarrow>
                           let w = emit (ConsoleLog ''Set Price new value'') w
                           in if 2 < length (state_fields details)
                              then (Returned, set_innerText ''price'' (JsonOfValue (state_fields details ! 2)) w)
                              else (Threw TypeError, w))))"

text \<open>main.js lines 182 to 219.\<close>

definition withdrawEarnings :: "collaborators \<Rightarrow> session world \<Rightarrow> outcome \<times> session world" where
  "withdrawEarnings c w0 =
     (let manifest = withdrawEarnings_manifest (vars w0);
          w = emit (ConsoleLog ''Withdraw Earnings manifest'') w0;
          w = emit (SendTransaction manifest) w
      in case sendTransaction c manifest of
           Err e \<Rightarrow> (Threw (WalletError e), w)
         | Ok h \<Rightarrow>
             let w = emit (ConsoleLog ''Withdraw Earnings sendTransaction Result: '') w;
                 w = emit (GetStatus h) w
             in (case getStatus c h of
                  Rejected g \<Rightarrow> (Threw (GatewayError g), w)
                | Resolved transactionStatus \<Rightarrow>
                    let w = emit (ConsoleLog ''Withdraw Earnings status'') w;
                        w = emit (GetCommittedDetails h) w
                    in (case getCommittedDetails c h of
                         Rejected g \<Rightarrow> (Threw (GatewayError g), w)
                       | Resolved getCommitReceipt \<Rightarrow>
                           let w = emit (ConsoleLog ''Withdraw Earnings commitReceipt'') w;
                               w = set_innerText ''withdraw'' (JsonOfReceipt getCommitReceipt) w
                           in (Returned, w))))"

text \<open>main.js lines 221 to 260.\<close>

definition mintStaffBadge :: "collaborators \<Rightarrow> session world \<Rightarrow> outcome \<times> session world" where
  "mintStaffBadge c w0 =
     (let manifest = mintStaffBadge_manifest (vars w0);
          w = emit (ConsoleLog ''mintStaffBadge manifest'') w0;
          w = emit (SendTransaction manifest) w
      in case sendTransaction c manifest of
           Err e \<Rightarrow> (Threw (WalletError e), w)
         | Ok h \<Rightarrow>
             let w = emit (ConsoleLog ''mintStaffBadge sendTransaction Result: '') w;
                 w = emit (GetStatus h) w
             in (case getStatus c h of
                  Rejected g \<Rightarrow> (Threw (GatewayError g), w)
                | Resolved transactionStatus \<Rightarrow>
                    let w = emit (ConsoleLog ''mintStaffBadge status'') w;
                        w = emit (GetCommittedDetails h) w
                    in (case getCommittedDetails c h of
                         Rejected g \<Rightarrow> (Threw (GatewayError g), w)
                       | Resolved getCommitReceipt \<Rightarrow>
                           let w = emit (ConsoleLog ''mintStaffBadge commitReceipt'') w;
                               w = set_innerText ''staffBadge'' (JsonOfReceipt getCommitReceipt) w
                           in (Returned, w))))"

section \<open>The wallet-sdk front-end (src/index.ts)\<close>

record sdk_session =
  sdk_accountAddress :: js_value
  sdk_componentAddress :: js_value
  sdk_resourceAddress :: js_value

text \<open>index.ts lines 21 to 23: three declarations without initialiser.\<close>

definition sdk_initial_session :: sdk_session where
  "sdk_initial_session =
     \<lparr> sdk_accountAddress = Undefined, sdk_componentAddress = Undefined,
       sdk_resourceAddress = Undefined \<rparr>"

text \<open>
  The manifest is composed with the SDK's \<open>ManifestBuilder\<close>: a chain of calls, kept
  here as the list of the calls with their arguments. \<open>Decimal("10")\<close> is a call of the
  SDK's \<open>Decimal\<close>; the other arguments are strings written in the source.
\<close>

datatype sdk_arg = SdkDecimal string | Raw string

datatype builder_call =
    CallFunction string string string "sdk_arg list"
  | WithdrawFromAccountByAmount js_value int string
  | TakeFromWorktopByAmount int string string
  | CallMethod js_value string "sdk_arg list"

text \<open>index.ts lines 51 to 52.\<close>

definition sdk_instantiate_calls :: "string \<Rightarrow> builder_call list" where
  "sdk_instantiate_calls packageAddress =
     [CallFunction packageAddress ''GumballMachine'' ''instantiate_gumball_machine''
        [SdkDecimal ''10'']]"

text \<open>index.ts lines 88 to 92.\<close>

definition sdk_buy_calls :: "sdk_session \<Rightarrow> builder_call list" where
  \<open>sdk_buy_calls s =
     [WithdrawFromAccountByAmount (sdk_accountAddress s) 10
        ''resource_tdx_b_1qzkcyv5dwq3r6kawy6pxpvcythx8rh8ntum6ws62p95s9hhz9x'',
      TakeFromWorktopByAmount 10
        ''resource_tdx_b_1qzkcyv5dwq3r6kawy6pxpvcythx8rh8ntum6ws62p95s9hhz9x'' ''bucket1'',
      CallMethod (sdk_componentAddress s) ''buy_gumball'' [Raw ''Bucket("bucket1")''],
      CallMethod (sdk_accountAddress s) ''deposit_batch'' [Raw ''Expression("ENTIRE_WORKTOP")'']]\<close>

text \<open>
  \<open>oneTimeAccounts\<close> of the value of a wallet request: absent, or an array of accounts.
\<close>

record wallet_value =
  oneTimeAccounts :: "account list option"

text \<open>
  The collaborators of index.ts. \<open>manifest_toString\<close> stands for the SDK's
  \<open>.build().toString()\<close>, the text of a chain of builder calls: the SDK is a
  third-party library, so its rendering is a parameter and nothing is assumed about it.
\<close>

record sdk_collaborators =
  request :: "wallet_value result"
  manifest_toString :: "builder_call list \<Rightarrow> string"
  sdk_sendTransaction :: "string \<Rightarrow> string result"
  transactionStatus :: "string \<Rightarrow> string promise"

text \<open>
  index.ts lines 27 to 45. \<open>!oneTimeAccounts\<close> holds for an absent value only: an
  empty array is truthy, and \<open>oneTimeAccounts[0].address\<close> then throws a TypeError.
\<close>

definition fetchAccountAddress ::
  "sdk_collaborators \<Rightarrow> sdk_session world \<Rightarrow> outcome \<times> sdk_session world" where
  "fetchAccountAddress c w0 =
     (let w = emit (ConsoleLog ''getting account info'') w0;
          w = emit WalletRequest w
      in case request c of
           Err e \<Rightarrow> (Threw (WalletError e), w)
         | Ok v \<Rightarrow>
             let w = emit (ConsoleLog ''requestItem.oneTimeAccounts.withoutProofOfOwnership(1) '') w
             in (case oneTimeAccounts v of
                   None \<Rightarrow> (Returned, w)
                 | Some [] \<Rightarrow> (Threw TypeError, w)
                 | Some (a # _) \<Rightarrow>
                     let w = set_innerText ''accountAddress'' (Plain (address a)) w;
                         w = assign ''accountAddress'' (\<lambda>v s. s\<lparr>sdk_accountAddress := v\<rparr>)
                               (Str (address a)) w
                     in (Returned, w)))"

text \<open>
  index.ts lines 48 to 84. The lines that read the receipt and assign
  \<open>componentAddress\<close> and \<open>resourceAddress\<close> are commented out in the source.
\<close>

definition sdk_instantiateComponent ::
  "sdk_collaborators \<Rightarrow> sdk_session world \<Rightarrow> outcome \<times> sdk_session world" where
  "sdk_instantiateComponent c w0 =
     (let packageAddress = input_value (page w0) ''packageAddress'';
          manifest = manifest_toString c (sdk_instantiate_calls packageAddress);
          w = emit (ConsoleLog ''manifest: '') w0;
          w = emit (SendTransaction manifest) w
      in case sdk_sendTransaction c manifest of
           Err e \<Rightarrow> (Threw (WalletError e), w)
         | Ok h \<Rightarrow>
             let w = emit (ConsoleLog ''Intantiate Result: '') w;
                 w = emit (GetStatus h) w
             in (case transactionStatus c h of
                   Rejected g \<Rightarrow> (Threw (GatewayError g), w)
                 | Resolved response \<Rightarrow> (Returned, emit (ConsoleLog ''response'') w)))"

text \<open>index.ts lines 86 to 114; the receipt lines are commented out in the source.\<close>

definition sdk_buyGumball ::
  "sdk_collaborators \<Rightarrow> sdk_session world \<Rightarrow> outcome \<times> sdk_session world" where
  "sdk_buyGumball c w0 =
     (let manifest = manifest_toString c (sdk_buy_calls (vars w0));
          w = emit (SendTransaction manifest) w0
      in case sdk_sendTransaction c manifest of
           Err e \<Rightarrow> (Threw (WalletError e), w)
         | Ok h \<Rightarrow> (Returned, emit (ConsoleLog ''buyGumball result: '') w))"

section \<open>Observing a run\<close>

text \<open>The events one run of handler \<open>h\<close> adds to the trace.\<close>

definition new_events ::
  "('c \<Rightarrow> 'st world \<Rightarrow> outcome \<times> 'st world) \<Rightarrow> 'c \<Rightarrow> 'st world \<Rightarrow> event list" where
  "new_events h c w = drop (length (trace w)) (trace (snd (h c w)))"

fun sent :: "event \<Rightarrow> string option" where
  "sent (SendTransaction m) = Some m"
| "sent _ = None"

text \<open>The manifests handed to the wallet, in order.\<close>

definition manifests_sent :: "event list \<Rightarrow> string list" where
  "manifests_sent es = List.map_filter sent es"

text \<open>The steps of the pipeline of a mutating operation; a console log is no step.\<close>

datatype stage = Submit | StatusQuery | DetailsQuery | StateQuery | Store | UiUpdate

fun stage_of :: "event \<Rightarrow> stage option" where
  "stage_of (ConsoleLog _) = None"
| "stage_of WalletRequest = None"
| "stage_of (SendTransaction _) = Some Submit"
| "stage_of (GetStatus _) = Some StatusQuery"
| "stage_of (GetCommittedDetails _) = Some DetailsQuery"
| "stage_of (GetEntityDetails _) = Some StateQuery"
| "stage_of (Assign _ _) = Some Store"
| "stage_of (SetInnerText _ _) = Some UiUpdate"

definition pipeline :: "event list \<Rightarrow> stage list" where
  "pipeline es = List.map_filter stage_of es"


section \<open>The claims' wording as definitions\<close>

text \<open>
  The manifest of the Instantiate scenario as the claim words it, written with the calls of
  the SDK's builder: a call of the package's \<open>instantiate_gumball_machine\<close> with
  Decimal 5 and the flavor, then a deposit of the entire worktop to the account.
\<close>

definition claimed_instantiate_calls :: "js_value \<Rightarrow> string \<Rightarrow> string \<Rightarrow> builder_call list" where
  \<open>claimed_instantiate_calls acct pkg flavor =
     [CallFunction pkg ''GumballMachine'' ''instantiate_gumball_machine''
        [SdkDecimal ''5'', Raw (''"'' @ flavor @ ''"'')],
      CallMethod acct ''deposit_batch'' [Raw ''Expression("ENTIRE_WORKTOP")'']]\<close>

text \<open>
  The manifest of the Buy scenario as the claim words it, with the builder's calls: withdraw
  33 of the resource, take it from the worktop into a bucket, call \<open>buy_gumball\<close> with
  the bucket, deposit the entire worktop.
\<close>

definition claimed_buy_calls :: "js_value \<Rightarrow> string \<Rightarrow> js_value \<Rightarrow> builder_call list" where
  \<open>claimed_buy_calls acct xrd cmp =
     [WithdrawFromAccountByAmount acct 33 xrd,
      TakeFromWorktopByAmount 33 xrd ''bucket1'',
      CallMethod cmp ''buy_gumball'' [Raw ''Bucket("bucket1")''],
      CallMethod acct ''deposit_batch'' [Raw ''Expression("ENTIRE_WORKTOP")'']]\<close>







text \<open>
  A run that started in \<open>w\<close> aborted by throwing the wallet's error \<open>e\<close> and left
  every session variable and the whole page as they were.
\<close>

definition aborts_with :: "string \<Rightarrow> 'st world \<Rightarrow> outcome \<times> 'st world \<Rightarrow> bool" where
  "aborts_with e w r = (fst r = Threw (WalletError e) \<and> vars (snd r) = vars w \<and> page (snd r) = page w)"

section \<open>Concrete inputs\<close>

definition scenario_session :: session where
  "scenario_session =
     \<lparr> accountAddress = Str ''addr1'', componentAddress = Str ''comp1'',
       gum_resourceAddress = Str ''gum1'', xrdAddress = Str ''xrd1'',
       admin_badge = Str ''admin1'', owner_badge = Str ''owner1'' \<rparr>"

definition demo_page :: dom where
  "demo_page =
     \<lparr> innerText = (\<lambda>i. Plain []),
       input_value = (\<lambda>i. if i = ''packageAddress'' then ''pkg1''
                          else if i = ''flavor'' then ''BANANA''
                          else if i = ''newPrice'' then ''2'' else []) \<rparr>"

definition demo_world :: "session world" where
  "demo_world = \<lparr> vars = scenario_session, page = demo_page, trace = [] \<rparr>"

text \<open>The same session and input fields on a page with other texts and an earlier trace.\<close>

definition other_world :: "session world" where
  "other_world =
     \<lparr> vars = scenario_session,
       page = demo_page\<lparr>innerText := (\<lambda>i. Plain ''old'')\<rparr>,
       trace = [ConsoleLog ''earlier'', SendTransaction ''earlier manifest''] \<rparr>"

definition demo_receipt :: receipt where
  "demo_receipt = \<lparr> affected_global_entities = [''e0'', ''e1'', ''e2'', ''e3'', ''e4'', ''e5'', ''e6''] \<rparr>"

definition all_succeed :: collaborators where
  "all_succeed =
     \<lparr> sendTransaction = (\<lambda>m. Ok ''hash1''),
       getStatus = (\<lambda>h. Resolved ''CommittedSuccess''),
       getCommittedDetails = (\<lambda>h. Resolved demo_receipt),
       getEntityDetailsVaultAggregated =
         (\<lambda>a. Resolved \<lparr> state_fields = [Str ''f0'', Str ''f1'', Str ''2''] \<rparr>) \<rparr>"

definition wallet_rejects :: collaborators where
  "wallet_rejects = all_succeed\<lparr>sendTransaction := (\<lambda>m. Err ''rejectedByUser'')\<rparr>"




definition sdk_session1 :: sdk_session where
  "sdk_session1 =
     \<lparr> sdk_accountAddress = Str ''addr1'', sdk_componentAddress = Str ''comp1'',
       sdk_resourceAddress = Undefined \<rparr>"

definition sdk_world :: "sdk_session world" where
  "sdk_world = \<lparr> vars = sdk_session1, page = demo_page, trace = [] \<rparr>"

definition sdk_other_world :: "sdk_session world" where
  "sdk_other_world =
     \<lparr> vars = sdk_session1,
       page = demo_page\<lparr>innerText := (\<lambda>i. Plain ''old'')\<rparr>,
       trace = [ConsoleLog ''earlier''] \<rparr>"

definition sdk_fresh_world :: "sdk_session world" where
  "sdk_fresh_world = \<lparr> vars = sdk_initial_session, page = demo_page, trace = [] \<rparr>"

text \<open>An SDK whose rendering is not known: here it keeps the number of calls only.\<close>

definition sdk_all_succeed :: sdk_collaborators where
  "sdk_all_succeed =
     \<lparr> request = Ok \<lparr> oneTimeAccounts = Some [\<lparr> label = ''main'', address = ''addr1'' \<rparr>] \<rparr>,
       manifest_toString = (\<lambda>calls. replicate (length calls) CHR ''i''),
       sdk_sendTransaction = (\<lambda>m. Ok ''hash1''),
       transactionStatus = (\<lambda>h. Resolved ''CommittedSuccess'') \<rparr>"

definition sdk_wallet_rejects :: sdk_collaborators where
  "sdk_wallet_rejects = sdk_all_succeed\<lparr>sdk_sendTransaction := (\<lambda>m. Err ''rejectedByUser'')\<rparr>"


definition sdk_no_accounts :: sdk_collaborators where
  "sdk_no_accounts = sdk_all_succeed\<lparr>request := Ok \<lparr> oneTimeAccounts = None \<rparr>\<rparr>"

section \<open>Lemmas on runs and on the reading of manifests\<close>

lemmas run_defs =
  Let_def emit_def set_innerText_def assign_def new_events_def pipeline_def manifests_sent_def

lemmas demo_defs =
  demo_world_def demo_page_def scenario_session_def demo_receipt_def all_succeed_def
  wallet_rejects_def sdk_session1_def sdk_world_def sdk_fresh_world_def
  sdk_initial_session_def sdk_all_succeed_def sdk_wallet_rejects_def

lemmas reading_defs = manifest_instructions_def tokens_def is_space_def


lemmas handler_defs =
  instantiateComponent_def buyGumball_def setPrice_def withdrawEarnings_def
  mintStaffBadge_def sdk_instantiateComponent_def sdk_buyGumball_def

text \<open>
  Before the wallet has delivered an account, \<open>accountAddress\<close> is undefined and a
  manifest names the account \<open>undefined\<close>: nothing is validated locally.
\<close>

lemma initial_session_manifest_names_undefined:
  \<open>hd (manifest_instructions (withdrawEarnings_manifest initial_session)) =
     [''CALL_METHOD'', ''Address("undefined")'', ''"create_proof_of_amount"'',
      ''Address("resource_tdx_e_1tk35c2pnzy4fr6ms5wpm8v4rsw76h7ptyydvqgs88jk58eqmaeqt45")'',
      ''Decimal("1")'']\<close>
  by (simp add: withdrawEarnings_manifest_def reading_defs initial_session_def)

subsection \<open>The manifest a run hands to the wallet\<close>

lemma sent_instantiate:
  "manifests_sent (new_events instantiateComponent c w) =
     [instantiate_manifest (vars w) (input_value (page w) ''packageAddress'')
        (input_value (page w) ''flavor'')]"
  by (simp add: instantiateComponent_def run_defs split: result.splits promise.splits)

lemma sent_buy: "manifests_sent (new_events buyGumball c w) = [buy_manifest (vars w)]"
  by (simp add: buyGumball_def run_defs split: result.splits promise.splits)

lemma sent_setPrice:
  "manifests_sent (new_events setPrice c w) =
     [setPrice_manifest (vars w) (input_value (page w) ''newPrice'')]"
  by (simp add: setPrice_def run_defs split: result.splits promise.splits)

lemma sent_withdraw:
  "manifests_sent (new_events withdrawEarnings c w) = [withdrawEarnings_manifest (vars w)]"
  by (simp add: withdrawEarnings_def run_defs split: result.splits promise.splits)

lemma sent_mint:
  "manifests_sent (new_events mintStaffBadge c w) = [mintStaffBadge_manifest (vars w)]"
  by (simp add: mintStaffBadge_def run_defs split: result.splits promise.splits)

lemma sent_sdk_instantiate:
  "manifests_sent (new_events sdk_instantiateComponent d v) =
     [manifest_toString d (sdk_instantiate_calls (input_value (page v) ''packageAddress''))]"
  by (simp add: sdk_instantiateComponent_def run_defs split: result.splits promise.splits)

lemma sent_sdk_buy:
  "manifests_sent (new_events sdk_buyGumball d v) = [manifest_toString d (sdk_buy_calls (vars v))]"
  by (simp add: sdk_buyGumball_def run_defs split: result.splits promise.splits)

lemmas sent_simps =
  sent_instantiate sent_buy sent_setPrice sent_withdraw sent_mint sent_sdk_instantiate sent_sdk_buy

subsection \<open>What a run leaves as it was\<close>

lemma frame_buy:
  "vars (snd (buyGumball c w)) = vars w \<and> Store \<notin> set (pipeline (new_events buyGumball c w))"
  by (simp add: buyGumball_def run_defs split: result.splits promise.splits)

lemma frame_setPrice:
  "vars (snd (setPrice c w)) = vars w \<and> Store \<notin> set (pipeline (new_events setPrice c w))"
  by (simp add: setPrice_def run_defs split: result.splits promise.splits)

lemma frame_withdraw:
  "vars (snd (withdrawEarnings c w)) = vars w \<and>
   Store \<notin> set (pipeline (new_events withdrawEarnings c w))"
  by (simp add: withdrawEarnings_def run_defs split: result.splits promise.splits)

lemma frame_mint:
  "vars (snd (mintStaffBadge c w)) = vars w \<and>
   Store \<notin> set (pipeline (new_events mintStaffBadge c w))"
  by (simp add: mintStaffBadge_def run_defs split: result.splits promise.splits)

lemma frame_getPrice:
  "vars (snd (getPrice c w)) = vars w \<and> Store \<notin> set (pipeline (new_events getPrice c w))"
  by (simp add: getPrice_def run_defs split: result.splits promise.splits)

text \<open>The subscriber is the one other place that assigns a session variable.\<close>

lemma subscriber_assigns_account:
  "vars (snd (walletData_subscriber (a # as) w)) = (vars w)\<lparr>accountAddress := Str (address a)\<rparr>"
  by (simp add: walletData_subscriber_def run_defs)

subsection \<open>The steps of each handler\<close>















section \<open>Instantiate: the stored addresses\<close>




section \<open>A wallet error aborts the operation\<close>

text \<open>
  C2. For each mutating operation of both front-ends (Instantiate, Buy, Set Price, Withdraw
  Earnings, Mint Badge of main.js; Instantiate and Buy of index.ts): when the wallet's
  \<open>sendTransaction\<close> answers the manifest of the run with an error, the run throws that
  error, and every session variable and the whole page (every text and every input field) are
  as they were before the run.
\<close>

theorem wallet_error_aborts_unchanged:
  "(sendTransaction c (instantiate_manifest (vars w) (input_value (page w) ''packageAddress'')
        (input_value (page w) ''flavor'')) = Err e
      \<longrightarrow> aborts_with e w (instantiateComponent c w)) \<and>
   (sendTransaction c (buy_manifest (vars w)) = Err e \<longrightarrow> aborts_with e w (buyGumball c w)) \<and>
   (sendTransaction c (setPrice_manifest (vars w) (input_value (page w) ''newPrice'')) = Err e
      \<longrightarrow> aborts_with e w (setPrice c w)) \<and>
   (sendTransaction c (withdrawEarnings_manifest (vars w)) = Err e
      \<longrightarrow> aborts_with e w (withdrawEarnings c w)) \<and>
   (sendTransaction c (mintStaffBadge_manifest (vars w)) = Err e
      \<longrightarrow> aborts_with e w (mintStaffBadge c w)) \<and>
   (sdk_sendTransaction d
        (manifest_toString d (sdk_instantiate_calls (input_value (page v) ''packageAddress'')))
        = Err e
      \<longrightarrow> aborts_with e v (sdk_instantiateComponent d v)) \<and>
   (sdk_sendTransaction d (manifest_toString d (sdk_buy_calls (vars v))) = Err e
      \<longrightarrow> aborts_with e v (sdk_buyGumball d v))"
  by (simp add: handler_defs aborts_with_def run_defs)

theorem wallet_error_aborts_unchanged_witness:
  "aborts_with ''rejectedByUser'' demo_world (instantiateComponent wallet_rejects demo_world) \<and>
   aborts_with ''rejectedByUser'' demo_world (buyGumball wallet_rejects demo_world) \<and>
   aborts_with ''rejectedByUser'' demo_world (setPrice wallet_rejects demo_world) \<and>
   aborts_with ''rejectedByUser'' demo_world (withdrawEarnings wallet_rejects demo_world) \<and>
   aborts_with ''rejectedByUser'' demo_world (mintStaffBadge wallet_rejects demo_world) \<and>
   aborts_with ''rejectedByUser'' sdk_world (sdk_instantiateComponent sdk_wallet_rejects sdk_world) \<and>
   aborts_with ''rejectedByUser'' sdk_world (sdk_buyGumball sdk_wallet_rejects sdk_world)"
  using wallet_error_aborts_unchanged
    [of wallet_rejects demo_world "''rejectedByUser''" sdk_wallet_rejects sdk_world]
  by (simp add: wallet_rejects_def all_succeed_def sdk_wallet_rejects_def sdk_all_succeed_def)

section \<open>Manifest construction depends on the session and the input fields only\<close>

text \<open>
  C3. Two runs of the same operation that start with the same session variables and the same
  values of the input fields hand the same manifest to the wallet, whatever else differs: the
  texts on the page, the earlier trace, the answers of the collaborators. For the wallet-sdk
  front-end the two chains of builder calls are equal, and so are the texts handed over when
  both runs use the same SDK rendering.
\<close>

theorem manifest_construction_deterministic:
  assumes "vars w = vars w'" and "input_value (page w) = input_value (page w')"
    and "vars v = vars v'" and "input_value (page v) = input_value (page v')"
    and "manifest_toString d = manifest_toString d'"
  shows "manifests_sent (new_events instantiateComponent c w) =
      manifests_sent (new_events instantiateComponent c' w') \<and>
    manifests_sent (new_events buyGumball c w) = manifests_sent (new_events buyGumball c' w') \<and>
    manifests_sent (new_events setPrice c w) = manifests_sent (new_events setPrice c' w') \<and>
    manifests_sent (new_events withdrawEarnings c w) =
      manifests_sent (new_events withdrawEarnings c' w') \<and>
    manifests_sent (new_events mintStaffBadge c w) =
      manifests_sent (new_events mintStaffBadge c' w') \<and>
    sdk_instantiate_calls (input_value (page v) ''packageAddress'') =
      sdk_instantiate_calls (input_value (page v') ''packageAddress'') \<and>
    sdk_buy_calls (vars v) = sdk_buy_calls (vars v') \<and>
    manifests_sent (new_events sdk_instantiateComponent d v) =
      manifests_sent (new_events sdk_instantiateComponent d' v') \<and>
    manifests_sent (new_events sdk_buyGumball d v) =
      manifests_sent (new_events sdk_buyGumball d' v')"
  using assms by (simp add: sent_simps)

text \<open>
  Two worlds with different pages and traces, and collaborators of which one accepts and the
  other rejects.
\<close>

theorem manifest_construction_deterministic_witness:
  "vars demo_world = vars other_world \<and>
   input_value (page demo_world) = input_value (page other_world) \<and>
   page demo_world \<noteq> page other_world \<and> trace demo_world \<noteq> trace other_world \<and>
   vars sdk_world = vars sdk_other_world \<and>
   input_value (page sdk_world) = input_value (page sdk_other_world) \<and>
   manifest_toString sdk_all_succeed = manifest_toString sdk_wallet_rejects \<and>
   manifests_sent (new_events instantiateComponent all_succeed demo_world) =
     manifests_sent (new_events instantiateComponent wallet_rejects other_world) \<and>
   manifests_sent (new_events buyGumball all_succeed demo_world) =
     manifests_sent (new_events buyGumball wallet_rejects other_world) \<and>
   manifests_sent (new_events setPrice all_succeed demo_world) =
     manifests_sent (new_events setPrice wallet_rejects other_world) \<and>
   manifests_sent (new_events withdrawEarnings all_succeed demo_world) =
     manifests_sent (new_events withdrawEarnings wallet_rejects other_world) \<and>
   manifests_sent (new_events mintStaffBadge all_succeed demo_world) =
     manifests_sent (new_events mintStaffBadge wallet_rejects other_world) \<and>
   manifests_sent (new_events sdk_instantiateComponent sdk_all_succeed sdk_world) =
     manifests_sent (new_events sdk_instantiateComponent sdk_wallet_rejects sdk_other_world) \<and>
   manifests_sent (new_events sdk_buyGumball sdk_all_succeed sdk_world) =
     manifests_sent (new_events sdk_buyGumball sdk_wallet_rejects sdk_other_world)"
proof -
  have h: "vars demo_world = vars other_world"
    "input_value (page demo_world) = input_value (page other_world)"
    "vars sdk_world = vars sdk_other_world"
    "input_value (page sdk_world) = input_value (page sdk_other_world)"
    "manifest_toString sdk_all_succeed = manifest_toString sdk_wallet_rejects"
    by (simp_all add: demo_defs other_world_def sdk_other_world_def)
  have d: "page demo_world \<noteq> page other_world" "trace demo_world \<noteq> trace other_world"
    by (auto simp add: demo_defs other_world_def dest: fun_cong)
  from manifest_construction_deterministic [OF h, of all_succeed wallet_rejects] h d
  show ?thesis by simp
qed

section \<open>The Instantiate and Buy scenarios\<close>

text \<open>
  C4. In the dapp-toolkit front-end, with account address \<open>addr1\<close>, package address
  \<open>pkg1\<close> and flavor \<open>BANANA\<close>, the Instantiate manifest consists of two
  instructions: a \<open>CALL_FUNCTION\<close> of \<open>pkg1\<close>'s
  \<open>GumballMachine\<close> \<open>instantiate_gumball_machine\<close> with \<open>Decimal("5")\<close>
  and \<open>"BANANA"\<close>, then a \<open>CALL_METHOD\<close> of \<open>deposit_batch\<close> on
  \<open>addr1\<close> with the entire worktop. The other session variables do not matter.
\<close>

theorem toolkit_instantiate_scenario:
  \<open>manifest_instructions
     (instantiate_manifest (s\<lparr>accountAddress := Str ''addr1''\<rparr>) ''pkg1'' ''BANANA'') =
   [[''CALL_FUNCTION'', ''Address("pkg1")'', ''"GumballMachine"'',
     ''"instantiate_gumball_machine"'', ''Decimal("5")'', ''"BANANA"''],
    [''CALL_METHOD'', ''Address("addr1")'', ''"deposit_batch"'',
     ''Expression("ENTIRE_WORKTOP")'']]\<close>
  by (simp add: instantiate_manifest_def reading_defs)

text \<open>
  The wallet-sdk front-end builds another manifest for the same package: one call, with
  Decimal 10 as its only argument, no flavor and no deposit.
\<close>

theorem sdk_instantiate_scenario_differs:
  \<open>sdk_instantiate_calls ''pkg1'' =
     [CallFunction ''pkg1'' ''GumballMachine'' ''instantiate_gumball_machine''
        [SdkDecimal ''10'']] \<and>
   sdk_instantiate_calls ''pkg1'' \<noteq>
     claimed_instantiate_calls (Str ''addr1'') ''pkg1'' ''BANANA''\<close>
  by (simp add: sdk_instantiate_calls_def claimed_instantiate_calls_def)

text \<open>
  C5. In the dapp-toolkit front-end, with account address \<open>addr1\<close>, XRD resource
  address \<open>xrd1\<close> and component address \<open>comp1\<close>, the Buy manifest consists of
  four instructions in this order: \<open>withdraw\<close> of \<open>Decimal("33")\<close> of
  \<open>xrd1\<close> from \<open>addr1\<close>; \<open>TAKE_ALL_FROM_WORKTOP\<close> of \<open>xrd1\<close> into
  the bucket \<open>xrd\<close>; \<open>buy_gumball\<close> on \<open>comp1\<close> with that bucket;
  \<open>deposit_batch\<close> of the entire worktop on \<open>addr1\<close>.
\<close>

theorem toolkit_buy_scenario:
  \<open>manifest_instructions
     (buy_manifest (s\<lparr>accountAddress := Str ''addr1'', xrdAddress := Str ''xrd1'',
                       componentAddress := Str ''comp1''\<rparr>)) =
   [[''CALL_METHOD'', ''Address("addr1")'', ''"withdraw"'', ''Address("xrd1")'',
     ''Decimal("33")''],
    [''TAKE_ALL_FROM_WORKTOP'', ''Address("xrd1")'', ''Bucket("xrd")''],
    [''CALL_METHOD'', ''Address("comp1")'', ''"buy_gumball"'', ''Bucket("xrd")''],
    [''CALL_METHOD'', ''Address("addr1")'', ''"deposit_batch"'',
     ''Expression("ENTIRE_WORKTOP")'']]\<close>
  by (simp add: buy_manifest_def reading_defs)

text \<open>
  The wallet-sdk front-end withdraws 10, not 33, of a resource address written in the source,
  and takes 10 from the worktop; the claimed manifest is compared on that very resource.
\<close>

theorem sdk_buy_scenario_differs:
  \<open>sdk_buy_calls sdk_session1 =
     [WithdrawFromAccountByAmount (Str ''addr1'') 10
        ''resource_tdx_b_1qzkcyv5dwq3r6kawy6pxpvcythx8rh8ntum6ws62p95s9hhz9x'',
      TakeFromWorktopByAmount 10
        ''resource_tdx_b_1qzkcyv5dwq3r6kawy6pxpvcythx8rh8ntum6ws62p95s9hhz9x'' ''bucket1'',
      CallMethod (Str ''comp1'') ''buy_gumball'' [Raw ''Bucket("bucket1")''],
      CallMethod (Str ''addr1'') ''deposit_batch'' [Raw ''Expression("ENTIRE_WORKTOP")'']] \<and>
   sdk_buy_calls sdk_session1 \<noteq>
     claimed_buy_calls (Str ''addr1'')
       ''resource_tdx_b_1qzkcyv5dwq3r6kawy6pxpvcythx8rh8ntum6ws62p95s9hhz9x'' (Str ''comp1'')\<close>
  by (simp add: sdk_buy_calls_def claimed_buy_calls_def sdk_session1_def)

section \<open>Admin actions\<close>




section \<open>The order of the steps\<close>




section \<open>Fetch Account with an empty answer\<close>

text \<open>
  C9. In the wallet-sdk front-end, when the wallet request succeeds and its value carries no
  \<open>oneTimeAccounts\<close>, the Fetch Account handler returns normally without assigning
  \<open>accountAddress\<close> and without writing to the page: the session variables and the
  page are as before, and the run stored nothing and updated nothing.
\<close>

theorem fetchAccount_empty_answer_unchanged:
  assumes "request c = Ok v" and "oneTimeAccounts v = None"
  shows "fst (fetchAccountAddress c w) = Returned \<and>
    vars (snd (fetchAccountAddress c w)) = vars w \<and>
    page (snd (fetchAccountAddress c w)) = page w \<and>
    pipeline (new_events fetchAccountAddress c w) = []"
  using assms by (simp add: fetchAccountAddress_def run_defs)

theorem fetchAccount_empty_answer_unchanged_witness:
  "request sdk_no_accounts = Ok \<lparr> oneTimeAccounts = None \<rparr> \<and>
   oneTimeAccounts \<lparr> oneTimeAccounts = None \<rparr> = None \<and>
   fst (fetchAccountAddress sdk_no_accounts sdk_fresh_world) = Returned \<and>
   vars (snd (fetchAccountAddress sdk_no_accounts sdk_fresh_world)) = sdk_initial_session \<and>
   page (snd (fetchAccountAddress sdk_no_accounts sdk_fresh_world)) = demo_page \<and>
   pipeline (new_events fetchAccountAddress sdk_no_accounts sdk_fresh_world) = []"
  using fetchAccount_empty_answer_unchanged
    [of sdk_no_accounts "\<lparr> oneTimeAccounts = None \<rparr>" sdk_fresh_world]
  by (simp add: sdk_no_accounts_def sdk_all_succeed_def sdk_fresh_world_def)

text \<open>With an account in the answer the same handler does assign the variable.\<close>

lemma fetchAccount_assigns:
  "sdk_accountAddress (vars (snd (fetchAccountAddress sdk_all_succeed sdk_fresh_world))) =
     Str ''addr1''"
  by (simp add: fetchAccountAddress_def run_defs demo_defs)

section \<open>The handlers that assign no session variable\<close>

text \<open>
  C10. In the dapp-toolkit front-end the Buy, Set Price, Withdraw Earnings and Mint Badge
  handlers assign no session variable: in every run, whatever the collaborators answer and
  however the run ends, no store is among its steps and \<open>accountAddress\<close>,
  \<open>componentAddress\<close>, \<open>gum_resourceAddress\<close>, \<open>xrdAddress\<close>,
  \<open>admin_badge\<close> and \<open>owner_badge\<close> hold afterwards what they held before.
\<close>

theorem toolkit_handlers_assign_no_variable:
  "vars (snd (buyGumball c w)) = vars w \<and>
   Store \<notin> set (pipeline (new_events buyGumball c w)) \<and>
   vars (snd (setPrice c w)) = vars w \<and>
   Store \<notin> set (pipeline (new_events setPrice c w)) \<and>
   vars (snd (withdrawEarnings c w)) = vars w \<and>
   Store \<notin> set (pipeline (new_events withdrawEarnings c w)) \<and>
   vars (snd (mintStaffBadge c w)) = vars w \<and>
   Store \<notin> set (pipeline (new_events mintStaffBadge c w))"
  using frame_buy [of c w] frame_setPrice [of c w] frame_withdraw [of c w] frame_mint [of c w]
  by blast

end
